theory Spec2Isabelle
  imports Complex_Main "HOL-Library.Product_Lexorder" "HOL-Library.Multiset"
begin

section \<open>Values, series and panels\<close>

text \<open>
  The strategy works on pandas objects holding 64-bit floats. Prices, volumes and revenues
  are modelled as reals. A missing observation (pandas NaN) in a column is \<open>None\<close>.
  A float computed by a division can also be an infinity or NaN; such results are values of
  \<open>fval\<close>. Rounding is not modelled.
\<close>

datatype fval = Fin real | PInf | NInf | NaN

text \<open>A column of a panel, one entry per row, and a series after \<open>dropna()\<close>.\<close>

type_synonym column = "real option list"
type_synonym series = "real list"

text \<open>
  A DataFrame: its columns in order, each with the instrument identifier as label.
  Labels are unique and all columns have one length (the number of rows).
\<close>

type_synonym panel = "(string \<times> column) list"

text \<open>
  The close and volume panels go through the arithmetic of \<open>apply_basic_filters\<close> before
  the evaluator reads them, so their columns hold floats. The revenue panel is read for
  the first time inside \<open>check_revenue_growth\<close>, whatever it holds. Its columns are
  therefore of two kinds: a column of floats, or a column of dtype object with \<open>n\<close>
  non-missing entries that are not numbers, on which \<open>dropna\<close>, \<open>len\<close> and \<open>tail\<close> work
  and \<open>mean\<close> raises TypeError.
\<close>

datatype revenue_column = FloatColumn column | ObjectColumn nat

type_synonym revenue_panel = "(string \<times> revenue_column) list"

text \<open>
  \<open>data_dict\<close> as built by \<open>get_stock_data\<close>; only the entries read by the modelled
  functions. \<open>None\<close> is the Python \<open>None\<close> stored when a download failed.
\<close>

record data_dict =
  close :: panel
  volume :: "panel option"
  monthly_revenue :: "revenue_panel option"

text \<open>The strategy parameters set in \<open>__init__\<close>.\<close>

record params =
  lookback_period :: nat
  gap_period :: nat
  confirmation_period :: nat
  long_term_period :: nat
  medium_term_period :: nat
  revenue_short :: nat
  revenue_long :: nat
  volume_short :: nat
  volume_long :: nat

definition default_params :: params where
  "default_params = \<lparr> lookback_period = 60, gap_period = 30, confirmation_period = 25,
     long_term_period = 120, medium_term_period = 60, revenue_short = 3, revenue_long = 12,
     volume_short = 5, volume_long = 20 \<rparr>"

section \<open>Python and pandas primitives\<close>

text \<open>\<open>Series.dropna()\<close>: the non-missing observations in order.\<close>

fun dropna :: "column \<Rightarrow> series" where
  "dropna [] = []"
| "dropna (None # xs) = dropna xs"
| "dropna (Some x # xs) = x # dropna xs"

text \<open>
  \<open>s.iloc[i:j]\<close> for integer bounds: a negative bound counts from the end, and both are
  clipped to the series.
\<close>

definition iloc_slice :: "int \<Rightarrow> int \<Rightarrow> 'a list \<Rightarrow> 'a list" where
  "iloc_slice i j xs =
     (let n = int (length xs);
          a = (if i < 0 then max 0 (n + i) else min i n);
          b = (if j < 0 then max 0 (n + j) else min j n)
      in take (nat (b - a)) (drop (nat a) xs))"

text \<open>\<open>s.iloc[i]\<close>: \<open>None\<close> stands for the IndexError pandas raises out of range.\<close>

definition iloc :: "'a list \<Rightarrow> int \<Rightarrow> 'a option" where
  "iloc xs i =
     (let pos = (if i < 0 then int (length xs) + i else i)
      in if pos < 0 \<or> int (length xs) \<le> pos then None else Some (xs ! nat pos))"

text \<open>\<open>s.tail(n)\<close>: the last \<open>n\<close> observations (all of them when there are fewer).\<close>

definition tail :: "nat \<Rightarrow> 'a list \<Rightarrow> 'a list" where
  "tail n xs = drop (length xs - n) xs"

text \<open>\<open>s.max()\<close> and \<open>s.mean()\<close> of a series without missing values; NaN when it is empty.\<close>

fun series_max :: "series \<Rightarrow> real option" where
  "series_max [] = None"
| "series_max (x # xs) = Some (fold max xs x)"

definition mean :: "series \<Rightarrow> real option" where
  "mean xs = (if xs = [] then None else Some (sum_list xs / real (length xs)))"

text \<open>
  \<open>s.rolling(w)\<close> with an integer window has \<open>min_periods = w\<close>: position \<open>i\<close> of the result
  is the aggregate of the \<open>w\<close> observations ending at \<open>i\<close>, and NaN while fewer than \<open>w\<close>
  observations are available. A window of 0 does not occur with the strategy's settings
  and is given NaN throughout.
\<close>

definition window :: "nat \<Rightarrow> 'a list \<Rightarrow> nat \<Rightarrow> 'a list" where
  "window w xs i = take w (drop (Suc i - w) xs)"

definition rolling :: "nat \<Rightarrow> (series \<Rightarrow> real option) \<Rightarrow> series \<Rightarrow> real option list" where
  "rolling w agg xs =
     map (\<lambda>i. if 0 < w \<and> w \<le> Suc i then agg (window w xs i) else None) [0..<length xs]"

definition rolling_max :: "nat \<Rightarrow> series \<Rightarrow> real option list" where
  "rolling_max w xs = rolling w series_max xs"

definition rolling_mean :: "nat \<Rightarrow> series \<Rightarrow> real option list" where
  "rolling_mean w xs = rolling w mean xs"

text \<open>
  Elementwise comparison of a series with a series that may hold NaN, followed by
  \<open>.any()\<close>. A comparison with NaN is false.
\<close>

definition lt_nan :: "real \<Rightarrow> real option \<Rightarrow> bool" where
  "lt_nan x h = (case h of None \<Rightarrow> False | Some m \<Rightarrow> x < m)"

definition ge_nan :: "real \<Rightarrow> real option \<Rightarrow> bool" where
  "ge_nan x h = (case h of None \<Rightarrow> False | Some m \<Rightarrow> x \<ge> m)"

definition gt_nan :: "real \<Rightarrow> real option \<Rightarrow> bool" where
  "gt_nan x h = (case h of None \<Rightarrow> False | Some m \<Rightarrow> x > m)"

definition any_lt :: "series \<Rightarrow> real option list \<Rightarrow> bool" where
  "any_lt xs hs = list_ex (\<lambda>(x, h). lt_nan x h) (zip xs hs)"

definition any_ge :: "series \<Rightarrow> real option list \<Rightarrow> bool" where
  "any_ge xs hs = list_ex (\<lambda>(x, h). ge_nan x h) (zip xs hs)"

section \<open>The eight conditions of \<open>calculate_second_high_conditions\<close>\<close>

text \<open>
  Each condition is a function of \<open>stock_close\<close>, the instrument's closes after
  \<open>dropna()\<close>, oldest first. The evaluator reads them only for a series of at least
  \<open>long_term_period + 10\<close> closes; on an empty series, where \<open>iloc[-1]\<close> would raise, the
  definitions give \<open>False\<close>.
\<close>

text \<open>Condition 1: \<open>latest_price >= stock_close.rolling(lookback_period).max().iloc[-1]\<close>.\<close>

definition condition1 :: "params \<Rightarrow> series \<Rightarrow> bool" where
  "condition1 p stock_close =
     (case (iloc stock_close (-1), iloc (rolling_max (lookback_period p) stock_close) (-1)) of
        (Some latest_price, Some high_60d) \<Rightarrow> ge_nan latest_price high_60d
      | _ \<Rightarrow> False)"

text \<open>
  Condition 2: the rolling maximum is taken over the slice \<open>iloc[-gap_period-1:-1]\<close>
  itself, not over the whole series.
\<close>

definition condition2 :: "params \<Rightarrow> series \<Rightarrow> bool" where
  "condition2 p stock_close =
     (let past_30d_prices = iloc_slice (- int (gap_period p) - 1) (-1) stock_close;
          past_30d_highs = rolling_max (lookback_period p) past_30d_prices
      in any_lt past_30d_prices past_30d_highs)"

text \<open>Condition 3: likewise on the slice \<open>iloc[-55:-gap_period]\<close>.\<close>

definition check_period :: "params \<Rightarrow> series \<Rightarrow> series" where
  "check_period p stock_close = iloc_slice (-55) (- int (gap_period p)) stock_close"

definition condition3 :: "params \<Rightarrow> series \<Rightarrow> bool" where
  "condition3 p stock_close =
     (let historical_highs = rolling_max (lookback_period p) (check_period p stock_close)
      in any_ge (check_period p stock_close) historical_highs)"

text \<open>Condition 4: the latest close against the maximum of the same slice.\<close>

definition resistance_level :: "params \<Rightarrow> series \<Rightarrow> real option" where
  "resistance_level p stock_close = series_max (check_period p stock_close)"

definition condition4 :: "params \<Rightarrow> series \<Rightarrow> bool" where
  "condition4 p stock_close =
     (case iloc stock_close (-1) of
        Some latest_price \<Rightarrow> gt_nan latest_price (resistance_level p stock_close)
      | None \<Rightarrow> False)"

text \<open>
  Conditions 5 and 6: \<open>latest_price > stock_close.iloc[-n]\<close> under the guard
  \<open>len(stock_close) >= n\<close>, for \<open>n\<close> the long and the medium term period.
\<close>

definition trend_up :: "nat \<Rightarrow> series \<Rightarrow> bool" where
  "trend_up n stock_close =
     (if length stock_close \<ge> n then
        (case (iloc stock_close (-1), iloc stock_close (- int n)) of
           (Some latest_price, Some price_ago) \<Rightarrow> latest_price > price_ago
         | _ \<Rightarrow> False)
      else False)"

definition condition5 :: "params \<Rightarrow> series \<Rightarrow> bool" where
  "condition5 p stock_close = trend_up (long_term_period p) stock_close"

definition condition6 :: "params \<Rightarrow> series \<Rightarrow> bool" where
  "condition6 p stock_close = trend_up (medium_term_period p) stock_close"

section \<open>Reference readings of conditions 2 and 3\<close>

text \<open>
  The specification words conditions 2 and 3 with each session's own trailing 60-session
  rolling high, that is the rolling maximum of the whole close series read at that session.
  These two predicates follow those words; they are compared with \<open>condition2\<close> and
  \<open>condition3\<close> above, which follow the code.
\<close>

definition below_high_at :: "nat \<Rightarrow> series \<Rightarrow> nat \<Rightarrow> bool" where
  "below_high_at w xs i = lt_nan (xs ! i) (rolling_max w xs ! i)"

definition new_high_at :: "nat \<Rightarrow> series \<Rightarrow> nat \<Rightarrow> bool" where
  "new_high_at w xs i = ge_nan (xs ! i) (rolling_max w xs ! i)"

definition prior_consolidation_spec :: "series \<Rightarrow> bool" where
  "prior_consolidation_spec xs =
     list_ex (below_high_at 60 xs) [length xs - 31 ..< length xs - 1]"

definition historical_strength_spec :: "series \<Rightarrow> bool" where
  "historical_strength_spec xs =
     list_ex (new_high_at 60 xs) [length xs - 55 ..< length xs - 30]"

text \<open>
  The end-to-end example of the specification as a series of 130 closes: 100 throughout,
  95 at sessions -121 and -120, 99 at sessions -61 and -60, a high of 104 at session -40,
  a dip to 98 at session -15 and a latest close of 105.
\<close>

definition example_close :: series where
  "example_close = replicate 9 100 @ [95, 95] @ replicate 58 100 @ [99, 99] @ replicate 19 100
     @ [104] @ replicate 24 100 @ [98] @ replicate 13 100 @ [105]"

section \<open>Inputs and reference readings for conditions 1 and 5\<close>

text \<open>
  A series of 130 closes with a high of 200 at session -61, just outside the trailing 60
  sessions that end at the evaluation date, a latest close of 180 and 100 elsewhere.
\<close>

definition stale_high_close :: series where
  "stale_high_close = replicate 69 100 @ [200] @ replicate 59 100 @ [180]"

text \<open>
  The specification words condition 5 with the close observed 120 sessions before the
  evaluation date, that is \<open>iloc[-121]\<close>, and asks for 120 prior sessions. This predicate
  follows those words; \<open>condition5\<close> above follows the code.
\<close>

definition long_term_uptrend_spec :: "series \<Rightarrow> bool" where
  "long_term_uptrend_spec xs =
     (case (iloc xs (-1), iloc xs (-1 - 120)) of
        (Some latest_price, Some price_120_earlier) \<Rightarrow> latest_price > price_120_earlier
      | _ \<Rightarrow> False)"

text \<open>
  A series of 130 closes: 50 at session -121 (120 sessions before the evaluation date),
  200 at session -120, a latest close of 110 and 100 elsewhere.
\<close>

definition off_by_one_close :: series where
  "off_by_one_close = replicate 9 100 @ [50, 200] @ replicate 118 100 @ [110]"


section \<open>Float division and the fail-open wrapper\<close>

text \<open>
  Division of two floats as numpy evaluates it: a zero divisor gives an infinity, or NaN
  for \<open>0 / 0\<close>, and raises nothing. Signed zeros are not modelled.
\<close>

definition fdiv :: "real \<Rightarrow> real \<Rightarrow> fval" where
  "fdiv a b =
     (if b \<noteq> 0 then Fin (a / b)
      else if a > 0 then PInf else if a < 0 then NInf else NaN)"

text \<open>\<open>(a / b - 1) * 100\<close>, the form of the breakout ratio and of the two gains.\<close>

definition pct_over :: "real \<Rightarrow> real \<Rightarrow> fval" where
  "pct_over a b =
     (case fdiv a b of Fin q \<Rightarrow> Fin ((q - 1) * 100) | PInf \<Rightarrow> PInf | NInf \<Rightarrow> NInf
      | NaN \<Rightarrow> NaN)"

text \<open>Comparison of two aggregates that may be NaN; false when either is.\<close>

definition ge_nan2 :: "real option \<Rightarrow> real \<Rightarrow> bool" where
  "ge_nan2 a y = (case a of Some x \<Rightarrow> x \<ge> y | None \<Rightarrow> False)"

definition gt_nan2 :: "real option \<Rightarrow> real option \<Rightarrow> bool" where
  "gt_nan2 a b = (case (a, b) of (Some x, Some y) \<Rightarrow> x > y | _ \<Rightarrow> False)"

text \<open>
  \<open>try: return body / except Exception: return dflt\<close>. The body is a value of
  \<open>error + 'a\<close>, with \<open>Inl\<close> for a raised exception.
\<close>

datatype error = IndexError | TypeError

definition except_return :: "'a \<Rightarrow> error + 'a \<Rightarrow> 'a" where
  "except_return dflt body = (case body of Inl e \<Rightarrow> dflt | Inr v \<Rightarrow> v)"

section \<open>Conditions 7 and 8\<close>

text \<open>
  A revenue column after \<open>dropna()\<close>, with its length, its tail and its mean. The mean
  of a non-empty object series raises TypeError; the mean of an empty series is NaN.
\<close>

datatype revenue_series = FloatSeries series | ObjectSeries nat

fun revenue_dropna :: "revenue_column \<Rightarrow> revenue_series" where
  "revenue_dropna (FloatColumn col) = FloatSeries (dropna col)"
| "revenue_dropna (ObjectColumn n) = ObjectSeries n"

fun revenue_len :: "revenue_series \<Rightarrow> nat" where
  "revenue_len (FloatSeries xs) = length xs"
| "revenue_len (ObjectSeries n) = n"

fun revenue_tail :: "nat \<Rightarrow> revenue_series \<Rightarrow> revenue_series" where
  "revenue_tail k (FloatSeries xs) = FloatSeries (tail k xs)"
| "revenue_tail k (ObjectSeries n) = ObjectSeries (min k n)"

fun revenue_mean :: "revenue_series \<Rightarrow> error + real option" where
  "revenue_mean (FloatSeries xs) = Inr (mean xs)"
| "revenue_mean (ObjectSeries n) = (if n = 0 then Inr None else Inl TypeError)"

text \<open>
  \<open>check_revenue_growth\<close>: the body of the \<open>try\<close>, in which the two means may raise,
  and the handler that returns \<open>True\<close>.
\<close>

definition revenue_growth_body :: "params \<Rightarrow> string \<Rightarrow> data_dict \<Rightarrow> error + bool" where
  "revenue_growth_body p stock_id d =
     (case monthly_revenue d of
        None \<Rightarrow> Inr True
      | Some revenue \<Rightarrow>
          (case map_of revenue stock_id of
             None \<Rightarrow> Inr True
           | Some col \<Rightarrow>
               (let revenue_data = revenue_dropna col in
                if revenue_len revenue_data < revenue_long p then Inr True
                else
                  (case revenue_mean (revenue_tail (revenue_short p) revenue_data) of
                     Inl e \<Rightarrow> Inl e
                   | Inr recent_3m \<Rightarrow>
                       (case revenue_mean (revenue_tail (revenue_long p) revenue_data) of
                          Inl e \<Rightarrow> Inl e
                        | Inr recent_12m \<Rightarrow> Inr (gt_nan2 recent_3m recent_12m))))))"

definition check_revenue_growth :: "params \<Rightarrow> string \<Rightarrow> data_dict \<Rightarrow> bool" where
  "check_revenue_growth p stock_id d = except_return True (revenue_growth_body p stock_id d)"

text \<open>
  \<open>check_volume_expansion\<close>: \<open>volume_5d > volume_20d * 1.2\<close>. On a volume panel of floats
  no operation of the body raises, so the body is always an \<open>Inr\<close>.
\<close>

definition volume_expansion_body :: "params \<Rightarrow> string \<Rightarrow> data_dict \<Rightarrow> error + bool" where
  "volume_expansion_body p stock_id d =
     (case volume d of
        None \<Rightarrow> Inr True
      | Some vol \<Rightarrow>
          (case map_of vol stock_id of
             None \<Rightarrow> Inr True
           | Some col \<Rightarrow>
               (let volume_data = dropna col in
                if length volume_data < volume_long p then Inr True
                else
                  (let volume_5d = mean (tail (volume_short p) volume_data);
                       volume_20d = mean (tail (volume_long p) volume_data)
                   in Inr (gt_nan2 volume_5d (map_option (\<lambda>v. v * 1.2) volume_20d))))))"

definition check_volume_expansion :: "params \<Rightarrow> string \<Rightarrow> data_dict \<Rightarrow> bool" where
  "check_volume_expansion p stock_id d =
     except_return True (volume_expansion_body p stock_id d)"

section \<open>\<open>calculate_technical_metrics\<close>\<close>

text \<open>
  The returned dictionary, without \<open>volatility\<close>: the standard deviation of the daily
  percentage changes raises nothing, feeds no condition and is not modelled. A moving
  average is NaN (\<open>None\<close>) while its window is not populated.
\<close>

record metrics =
  ma5 :: "real option"
  ma10 :: "real option"
  ma20 :: "real option"
  rsi :: fval
  volume_ratio :: real

text \<open>\<open>stock_close.diff()\<close>: NaN first, then the day-to-day changes.\<close>

definition diff :: "series \<Rightarrow> real option list" where
  "diff xs = (case xs of [] \<Rightarrow> [] | _ # ys \<Rightarrow> None # map (\<lambda>(a, b). Some (b - a)) (zip xs ys))"

text \<open>
  \<open>delta.where(delta > 0, 0)\<close> and \<open>-delta.where(delta < 0, 0)\<close>: where the test is false,
  as it is for NaN, the entry is replaced by 0.
\<close>

definition gain_of :: "real option \<Rightarrow> real" where
  "gain_of dl = (case dl of Some v \<Rightarrow> (if v > 0 then v else 0) | None \<Rightarrow> 0)"

definition loss_of :: "real option \<Rightarrow> real" where
  "loss_of dl = (case dl of Some v \<Rightarrow> (if v < 0 then - v else 0) | None \<Rightarrow> 0)"

text \<open>\<open>rs = gain / loss\<close> and \<open>rsi = 100 - (100 / (1 + rs))\<close>, entry by entry.\<close>

definition rs_of :: "real option \<Rightarrow> real option \<Rightarrow> fval" where
  "rs_of g l = (case (g, l) of (Some a, Some b) \<Rightarrow> fdiv a b | _ \<Rightarrow> NaN)"

definition rsi_of :: "fval \<Rightarrow> fval" where
  "rsi_of rs =
     (case rs of
        Fin r \<Rightarrow> (if 1 + r \<noteq> 0 then Fin (100 - 100 / (1 + r)) else NInf)
      | PInf \<Rightarrow> Fin 100
      | NInf \<Rightarrow> Fin 100
      | NaN \<Rightarrow> NaN)"

definition rsi_series :: "series \<Rightarrow> fval list" where
  "rsi_series stock_close =
     (let delta = diff stock_close;
          gain = rolling_mean 14 (map gain_of delta);
          loss = rolling_mean 14 (map loss_of delta)
      in map (\<lambda>(g, l). rsi_of (rs_of g l)) (zip gain loss))"

text \<open>The volume ratio: 1.0 unless the instrument has 20 volumes with a positive mean.\<close>

definition volume_ratio_of :: "data_dict \<Rightarrow> string \<Rightarrow> real" where
  "volume_ratio_of d stock_id =
     (case volume d of
        None \<Rightarrow> 1
      | Some vol \<Rightarrow>
          (case map_of vol stock_id of
             None \<Rightarrow> 1
           | Some col \<Rightarrow>
               (let volume_data = dropna col in
                if length volume_data \<ge> 20 then
                  (let volume_5d = sum_list (tail 5 volume_data) / real (length (tail 5 volume_data));
                       volume_20d = sum_list (tail 20 volume_data) / real (length (tail 20 volume_data))
                   in if volume_20d > 0 then volume_5d / volume_20d else 1)
                else 1)))"

text \<open>
  The body of the \<open>try\<close>. \<open>iloc[-1]\<close> on the rolling mean of an empty series raises
  IndexError, which the handler turns into the neutral defaults.
\<close>

definition technical_metrics_body :: "series \<Rightarrow> data_dict \<Rightarrow> string \<Rightarrow> error + metrics" where
  "technical_metrics_body stock_close d stock_id =
     (case iloc (rolling_mean 5 stock_close) (-1) of
        None \<Rightarrow> Inl IndexError
      | Some m5 \<Rightarrow>
     (case iloc (rolling_mean 10 stock_close) (-1) of
        None \<Rightarrow> Inl IndexError
      | Some m10 \<Rightarrow>
     (case iloc (rolling_mean 20 stock_close) (-1) of
        None \<Rightarrow> Inl IndexError
      | Some m20 \<Rightarrow>
          Inr \<lparr> ma5 = m5, ma10 = m10, ma20 = m20,
                rsi = (if rsi_series stock_close \<noteq> [] then last (rsi_series stock_close)
                       else Fin 50),
                volume_ratio = volume_ratio_of d stock_id \<rparr>)))"

definition default_metrics :: metrics where
  "default_metrics = \<lparr> ma5 = Some 0, ma10 = Some 0, ma20 = Some 0, rsi = Fin 50,
     volume_ratio = 1 \<rparr>"

definition calculate_technical_metrics :: "series \<Rightarrow> data_dict \<Rightarrow> string \<Rightarrow> metrics" where
  "calculate_technical_metrics stock_close d stock_id =
     except_return default_metrics (technical_metrics_body stock_close d stock_id)"


section \<open>Inputs for the metrics\<close>


definition mean_loss14 :: "series \<Rightarrow> real" where
  "mean_loss14 stock_close = sum_list (tail 14 (map loss_of (diff stock_close))) / 14"

text \<open>
  A \<open>data_dict\<close> without volume and revenue panels, and one whose only volume column
  is 20 zeros.
\<close>

definition no_data :: data_dict where
  "no_data = \<lparr> close = [], volume = None, monthly_revenue = None \<rparr>"

definition zero_volume :: data_dict where
  "zero_volume = \<lparr> close = [], volume = Some [(''2330'', replicate 20 (Some 0))],
     monthly_revenue = None \<rparr>"

text \<open>A close series of 14 sessions with gains and losses.\<close>

definition swing_close :: series where
  "swing_close = [10, 11, 10, 11, 10, 11, 10, 11, 10, 11, 10, 11, 10, 12]"

section \<open>The evaluator loop and the ranking\<close>

text \<open>
  One entry of \<open>results\<close>, without \<open>latest_date\<close> (index labels are not modelled) and
  with \<open>condition_details\<close> as the list of the eight conditions in their order.
\<close>

record candidate =
  stock_id :: string
  latest_price :: real
  resistance_break :: "real option"
  breakthrough_ratio :: fval
  long_term_gain :: fval
  medium_term_gain :: fval
  tech_metrics :: metrics
  conditions_met :: nat
  condition_details :: "bool list"

text \<open>\<open>(latest_price / resistance_level - 1) * 100\<close>, NaN for a NaN resistance.\<close>

definition breakthrough_of :: "real \<Rightarrow> real option \<Rightarrow> fval" where
  "breakthrough_of latest resistance =
     (case resistance of None \<Rightarrow> NaN | Some r \<Rightarrow> pct_over latest r)"

text \<open>
  \<open>(latest_price / price_ago - 1) * 100 if len(stock_close) >= n else 0\<close>. Under the
  guard \<open>iloc[-n]\<close> is in range for a non-empty series.
\<close>

definition gain_over :: "nat \<Rightarrow> series \<Rightarrow> real \<Rightarrow> fval" where
  "gain_over n stock_close latest =
     (if length stock_close \<ge> n then
        (case iloc stock_close (- int n) of Some price_ago \<Rightarrow> pct_over latest price_ago
         | None \<Rightarrow> NaN)
      else Fin 0)"

text \<open>The list \<open>all_conditions\<close> for one instrument.\<close>

definition all_conditions :: "params \<Rightarrow> data_dict \<Rightarrow> string \<Rightarrow> series \<Rightarrow> bool list" where
  "all_conditions p d sid stock_close =
     [condition1 p stock_close, condition2 p stock_close, condition3 p stock_close,
      condition4 p stock_close, condition5 p stock_close, condition6 p stock_close,
      check_revenue_growth p sid d, check_volume_expansion p sid d]"

text \<open>
  The body of the loop for one column of \<open>close_filtered\<close>; \<open>None\<close> is \<open>continue\<close> or
  a failed \<open>all(all_conditions)\<close>. On a series of floats nothing in the body raises
  (\<open>iloc[-1]\<close> is read after the length check), so the \<open>except: continue\<close> of the loop is
  the \<open>None\<close> of the \<open>iloc\<close> case only. \<open>sum(all_conditions)\<close> counts the true entries.
\<close>

definition evaluate_stock :: "params \<Rightarrow> data_dict \<Rightarrow> string \<Rightarrow> column \<Rightarrow> candidate option" where
  "evaluate_stock p d sid col =
     (let stock_close = dropna col in
      if length stock_close < long_term_period p + 10 then None
      else
        (case iloc stock_close (-1) of
           None \<Rightarrow> None
         | Some latest \<Rightarrow>
             if \<not> condition1 p stock_close then None
             else if length (check_period p stock_close) < confirmation_period p then None
             else if list_all (\<lambda>c. c) (all_conditions p d sid stock_close) then
               Some \<lparr> stock_id = sid,
                      latest_price = latest,
                      resistance_break = resistance_level p stock_close,
                      breakthrough_ratio =
                        breakthrough_of latest (resistance_level p stock_close),
                      long_term_gain = gain_over (long_term_period p) stock_close latest,
                      medium_term_gain = gain_over (medium_term_period p) stock_close latest,
                      tech_metrics = calculate_technical_metrics stock_close d sid,
                      conditions_met =
                        length (filter (\<lambda>c. c) (all_conditions p d sid stock_close)),
                      condition_details = all_conditions p d sid stock_close \<rparr>
             else None))"

text \<open>The list \<open>results\<close> after the loop, in the column order of \<open>close_filtered\<close>.\<close>

definition results :: "params \<Rightarrow> panel \<Rightarrow> data_dict \<Rightarrow> candidate list" where
  "results p close_filtered d =
     List.map_filter (\<lambda>(sid, col). evaluate_stock p d sid col) close_filtered"

text \<open>
  \<open>df.sort_values(['conditions_met', 'breakthrough_ratio'], ascending=[False, False])\<close>.
  pandas sorts several keys with a stable lexicographic sort and puts NaN last. The
  sort is modelled as the stable ascending insertion sort on a key that reverses both
  columns: \<open>desc_rank\<close> orders the ratios as \<open>+inf\<close>, the finite values from high to low,
  \<open>-inf\<close>, NaN.
\<close>

definition desc_rank :: "fval \<Rightarrow> nat \<times> real" where
  "desc_rank v = (case v of PInf \<Rightarrow> (0, 0) | Fin x \<Rightarrow> (1, - x) | NInf \<Rightarrow> (2, 0) | NaN \<Rightarrow> (3, 0))"

definition sort_values_key :: "candidate \<Rightarrow> int \<times> nat \<times> real" where
  "sort_values_key r = (- int (conditions_met r), desc_rank (breakthrough_ratio r))"

definition sort_values :: "candidate list \<Rightarrow> candidate list" where
  "sort_values rs = sort_key sort_values_key rs"

text \<open>The returned frame; \<open>[]\<close> is the empty \<open>pd.DataFrame()\<close>.\<close>

definition calculate_second_high_conditions ::
    "params \<Rightarrow> panel \<Rightarrow> data_dict \<Rightarrow> candidate list" where
  "calculate_second_high_conditions p close_filtered d =
     (if results p close_filtered d \<noteq> [] then sort_values (results p close_filtered d)
      else [])"

text \<open>
  The order the ranking is stated in: \<open>ratio_ge a b\<close> says that \<open>a\<close> may stand before
  \<open>b\<close> in a descending column with NaN last, and \<open>key_ge\<close> is the descending
  lexicographic order on the pair (conditions met, breakout ratio).
\<close>

fun ratio_ge :: "fval \<Rightarrow> fval \<Rightarrow> bool" where
  "ratio_ge a NaN = True"
| "ratio_ge NaN b = False"
| "ratio_ge PInf b = True"
| "ratio_ge a PInf = False"
| "ratio_ge (Fin x) (Fin y) = (x \<ge> y)"
| "ratio_ge (Fin x) NInf = True"
| "ratio_ge NInf (Fin y) = False"
| "ratio_ge NInf NInf = True"

definition key_ge :: "candidate \<Rightarrow> candidate \<Rightarrow> bool" where
  "key_ge a b =
     (conditions_met a > conditions_met b
      \<or> (conditions_met a = conditions_met b
          \<and> ratio_ge (breakthrough_ratio a) (breakthrough_ratio b)))"

section \<open>\<open>apply_basic_filters\<close> and \<open>run_analysis\<close>\<close>

text \<open>
  The number of rows of a panel is the length of its columns. \<open>DataFrame.empty\<close> holds
  when there is no column or no row. A frame without columns is taken to have rows, so
  that only a frame with columns and no rows makes \<open>iloc[-1]\<close> raise.
\<close>

definition n_rows :: "panel \<Rightarrow> nat" where
  "n_rows pnl = (case pnl of [] \<Rightarrow> 0 | (sid, col) # rest \<Rightarrow> length col)"

definition df_empty :: "panel \<Rightarrow> bool" where
  "df_empty pnl = (pnl = [] \<or> n_rows pnl = 0)"

text \<open>
  \<open>volume.rolling(20).mean().iloc[-1]\<close> for one raw column: the mean of the last 20 rows
  when all of them are present, NaN otherwise.
\<close>

definition avg_volume_20d :: "column \<Rightarrow> real option" where
  "avg_volume_20d col =
     (if length col \<ge> 20 \<and> list_all (\<lambda>v. v \<noteq> None) (tail 20 col)
      then mean (dropna (tail 20 col)) else None)"

text \<open>
  \<open>apply_basic_filters\<close>. \<open>iloc[-1]\<close> raises IndexError on a frame without rows, and the
  function has no handler. The three boolean series are combined by label; a label of
  \<open>close\<close> with no volume column counts as false.
\<close>

definition basic_filter :: "data_dict \<Rightarrow> string \<times> column \<Rightarrow> bool" where
  "basic_filter d = (\<lambda>(sid, col).
     real (length (dropna col)) \<ge> min 250 (real (n_rows (close d)) * 0.8)
     \<and> (case iloc col (-1) of Some (Some latest) \<Rightarrow> latest \<ge> 10 | _ \<Rightarrow> False)
     \<and> (case volume d of
          None \<Rightarrow> True
        | Some vol \<Rightarrow>
            (case map_of vol sid of
               None \<Rightarrow> False
             | Some vcol \<Rightarrow> ge_nan2 (avg_volume_20d vcol) 1000)))"

definition apply_basic_filters :: "data_dict \<Rightarrow> error + panel" where
  "apply_basic_filters d =
     (if close d \<noteq> [] \<and> n_rows (close d) = 0 then Inl IndexError
      else if (case volume d of None \<Rightarrow> False | Some vol \<Rightarrow> vol \<noteq> [] \<and> n_rows vol = 0)
        then Inl IndexError
      else Inr (filter (basic_filter d) (close d)))"

text \<open>
  \<open>run_analysis\<close> up to the report. \<open>login_ok\<close> is the result of \<open>initialize_finlab\<close> and
  \<open>fetched\<close> that of \<open>get_stock_data\<close>. Every \<open>raise\<close> and every uncaught exception ends
  in the handler, which sends the error notification and returns \<open>False\<close>: the outcome
  \<open>Failed\<close>. Otherwise the report on the evaluator's result is sent: the outcome
  \<open>Reported\<close>, whose return value is the success of the delivery.
\<close>

datatype failure = FinLabInitFailed | StockDataFailed | NoStocksAfterBasicFilter
  | Uncaught error

datatype run_outcome = Failed failure | Reported "candidate list"

definition run_analysis :: "params \<Rightarrow> bool \<Rightarrow> data_dict option \<Rightarrow> run_outcome" where
  "run_analysis p login_ok fetched =
     (if \<not> login_ok then Failed FinLabInitFailed
      else
        (case fetched of
           None \<Rightarrow> Failed StockDataFailed
         | Some d \<Rightarrow>
             (case apply_basic_filters d of
                Inl e \<Rightarrow> Failed (Uncaught e)
              | Inr close_filtered \<Rightarrow>
                  if df_empty close_filtered then Failed NoStocksAfterBasicFilter
                  else Reported (calculate_second_high_conditions p close_filtered d))))"


section \<open>A small configuration with candidates\<close>

text \<open>
  Parameters with short windows, and a panel of three instruments that pass all eight
  conditions under them: eleven rising closes, two falling ones and a latest close above
  the earlier high. The second instrument breaks out further than the other two, which
  are equal.
\<close>

definition short_params :: params where
  "short_params = \<lparr> lookback_period = 2, gap_period = 3, confirmation_period = 2,
     long_term_period = 4, medium_term_period = 2, revenue_short = 3, revenue_long = 12,
     volume_short = 5, volume_long = 20 \<rparr>"

definition breakout_close :: "real \<Rightarrow> column" where
  "breakout_close latest = map Some [1, 2, 3, 4, 5, 6, 7, 8, 9, 10, 11, 10, 9, latest]"

definition three_stocks :: panel where
  "three_stocks = [(''1101'', breakout_close 12), (''2330'', breakout_close 13), (''2454'', breakout_close 12)]"


section \<open>Revenue panels and a panel of low-priced stock\<close>






text \<open>
  A \<open>data_dict\<close> whose only instrument has 130 closes of 5, below the price floor of 10.
\<close>

definition penny_data :: data_dict where
  "penny_data = \<lparr> close = [(''9999'', replicate 130 (Some 5))], volume = None,
     monthly_revenue = None \<rparr>"


section \<open>Passing instruments for the RSI\<close>






section \<open>Lemmas on the primitives\<close>

lemma rolling_short: "length xs < w \<Longrightarrow> rolling w agg xs = replicate (length xs) None"
proof -
  assume "length xs < w"
  then have "map (\<lambda>i. if 0 < w \<and> w \<le> Suc i then agg (window w xs i) else None) [0..<length xs]
    = map (\<lambda>i. None) [0..<length xs]"
    by (intro map_cong) auto
  then show ?thesis by (simp add: rolling_def map_replicate_const)
qed

lemma rolling_nth:
  "i < length xs \<Longrightarrow> 0 < w \<Longrightarrow> w \<le> Suc i \<Longrightarrow> rolling w agg xs ! i = agg (window w xs i)"
  by (simp add: rolling_def)

lemma length_rolling: "length (rolling w agg xs) = length xs"
  by (simp add: rolling_def)

lemma any_lt_None: "any_lt xs (replicate n None) = False"
  by (auto simp: any_lt_def list_ex_iff lt_nan_def dest!: set_zip_rightD)

lemma any_ge_None: "any_ge xs (replicate n None) = False"
  by (auto simp: any_ge_def list_ex_iff ge_nan_def dest!: set_zip_rightD)

lemma length_iloc_slice_gap: "length (iloc_slice (- int g - 1) (-1) xs) \<le> g"
  by (simp add: iloc_slice_def Let_def)

lemma length_check_period: "length (check_period p xs) \<le> 55"
  unfolding check_period_def iloc_slice_def Let_def by (simp split: if_splits) linarith

lemma series_max_Cons: "series_max (x # xs) = Some (Max (set (x # xs)))"
  using Max.set_eq_fold[of x xs] by simp

lemma series_max_lt: "x \<in> set ws \<Longrightarrow> y < x \<Longrightarrow> lt_nan y (series_max ws)"
  by (cases ws) (auto simp: lt_nan_def series_max_Cons Max_gr_iff simp del: series_max.simps)

lemma series_max_ge: "ws \<noteq> [] \<Longrightarrow> \<forall>x\<in>set ws. x \<le> y \<Longrightarrow> ge_nan y (series_max ws)"
  by (cases ws) (auto simp: ge_nan_def series_max_Cons simp del: series_max.simps)

section \<open>Conditions 2 and 3 are never met with the default windows\<close>

text \<open>
  The slice handed to \<open>rolling\<close> holds at most \<open>gap_period\<close> closes for condition 2 and
  at most 55 for condition 3. A window longer than the slice leaves every rolling maximum
  NaN, so every comparison is false.
\<close>

lemma condition2_short_slice: "gap_period p < lookback_period p \<Longrightarrow> condition2 p xs = False"
  unfolding condition2_def Let_def
  using length_iloc_slice_gap[of "gap_period p" xs]
  by (simp add: rolling_max_def rolling_short any_lt_None)

lemma condition3_short_slice: "55 < lookback_period p \<Longrightarrow> condition3 p xs = False"
  unfolding condition3_def Let_def
  using length_check_period[of p xs]
  by (simp add: rolling_max_def rolling_short any_ge_None)

lemma length_example_close: "length example_close = 130"
  by (simp add: example_close_def)

lemma example_below_high: "below_high_at 60 example_close 115"
proof -
  have "rolling_max 60 example_close ! 115 = series_max (window 60 example_close 115)"
    by (simp add: rolling_max_def rolling_nth length_example_close)
  moreover have "example_close ! 115 = 98"
    by (simp add: example_close_def nth_append)
  moreover have "100 \<in> set (window 60 example_close 115)"
    by (simp add: example_close_def window_def)
  ultimately show ?thesis
    by (simp add: below_high_at_def series_max_lt[of 100])
qed

lemma example_new_high: "new_high_at 60 example_close 90"
proof -
  have "rolling_max 60 example_close ! 90 = series_max (window 60 example_close 90)"
    by (simp add: rolling_max_def rolling_nth length_example_close)
  moreover have "example_close ! 90 = 104"
    by (simp add: example_close_def nth_append)
  moreover have "\<forall>x\<in>set (window 60 example_close 90). x \<le> 104"
    by (simp add: example_close_def window_def)
  moreover have "window 60 example_close 90 \<noteq> []"
    by (simp add: example_close_def window_def)
  ultimately show ?thesis
    by (simp add: new_high_at_def series_max_ge)
qed

text \<open>
  C1. Condition 2 should hold exactly when one of the 30 sessions before the evaluation
  date closed below its own trailing 60-session rolling high. On the example series the
  close of session -15 (98) lies below its rolling high, so the reference reading holds,
  yet the code's \<open>condition2\<close> is false: the code fails the claim.
\<close>

theorem condition2_misses_consolidation:
  "prior_consolidation_spec example_close \<and> condition2 default_params example_close = False"
proof
  show "prior_consolidation_spec example_close"
    using example_below_high
    by (auto simp: prior_consolidation_spec_def list_ex_iff length_example_close
        intro!: bexI[of _ 115])
  show "condition2 default_params example_close = False"
    by (rule condition2_short_slice) (simp add: default_params_def)
qed

text \<open>
  C2. Condition 3 should hold exactly when one of the sessions in \<open>[-55,-30)\<close> closed at
  or above its own trailing 60-session rolling high. On the example series session -40
  (104) is such a high, so the reference reading holds, yet the code's \<open>condition3\<close> is
  false: the code fails the claim.
\<close>

theorem condition3_misses_new_high:
  "historical_strength_spec example_close \<and> condition3 default_params example_close = False"
proof
  show "historical_strength_spec example_close"
    using example_new_high
    by (auto simp: historical_strength_spec_def list_ex_iff length_example_close
        intro!: bexI[of _ 90])
  show "condition3 default_params example_close = False"
    by (rule condition3_short_slice) (simp add: default_params_def)
qed

section \<open>Condition 1 as a function of the latest close\<close>

lemma iloc_last: "xs \<noteq> [] \<Longrightarrow> iloc xs (-1) = Some (last xs)"
  by (cases xs rule: rev_cases) (auto simp: iloc_def Let_def nth_append)

lemma rolling_last:
  "0 < w \<Longrightarrow> w \<le> length xs \<Longrightarrow> last (rolling w agg xs) = agg (drop (length xs - w) xs)"
proof -
  assume w: "0 < w" "w \<le> length xs"
  then have ne: "rolling w agg xs \<noteq> []" by (auto simp: rolling_def)
  have "last (rolling w agg xs) = rolling w agg xs ! (length xs - 1)"
    using ne by (simp add: last_conv_nth length_rolling)
  also have "\<dots> = agg (window w xs (length xs - 1))"
    using w by (intro rolling_nth) auto
  also have "window w xs (length xs - 1) = drop (length xs - w) xs"
    using w by (simp add: window_def)
  finally show ?thesis .
qed

lemma condition1_eq:
  assumes "0 < lookback_period p" "lookback_period p \<le> length xs"
  shows "condition1 p xs = ge_nan (last xs) (series_max (drop (length xs - lookback_period p) xs))"
proof -
  from assms have ne: "xs \<noteq> []" by auto
  then have ne2: "rolling_max (lookback_period p) xs \<noteq> []"
    by (simp add: rolling_max_def rolling_def)
  show ?thesis
    unfolding condition1_def iloc_last[OF ne] iloc_last[OF ne2]
    using assms by (simp add: rolling_max_def rolling_last)
qed

lemma ge_series_max_snoc: "ge_nan v (series_max (ps @ [v])) = (\<forall>x\<in>set ps. x \<le> v)"
  by (cases ps) (auto simp: ge_nan_def series_max_Cons simp del: series_max.simps)

lemma gt_series_max: "gt_nan v (series_max ps) \<Longrightarrow> x \<in> set ps \<Longrightarrow> x < v"
  by (cases ps) (auto simp: gt_nan_def series_max_Cons simp del: series_max.simps)

lemma gt_series_maxI: "ps \<noteq> [] \<Longrightarrow> \<forall>x\<in>set ps. x < v \<Longrightarrow> gt_nan v (series_max ps)"
  by (cases ps) (auto simp: gt_nan_def series_max_Cons simp del: series_max.simps(2))

lemma lt_series_max: "lt_nan v (series_max ps) \<Longrightarrow> \<exists>x\<in>set ps. v < x"
  by (cases ps) (auto simp: lt_nan_def series_max_Cons Max_gr_iff simp del: series_max.simps(2))

lemma iloc_slice_before_last:
  "i < 0 \<Longrightarrow> iloc_slice i (-1) xs = drop (nat (int (length xs) + i)) (butlast xs)"
proof -
  assume i: "i < 0"
  have "iloc_slice i (-1) xs
      = take (nat (max 0 (int (length xs) - 1) - max 0 (int (length xs) + i)))
          (drop (nat (max 0 (int (length xs) + i))) xs)"
    using i by (simp add: iloc_slice_def Let_def)
  also have "\<dots> = take ((length xs - 1) - nat (int (length xs) + i))
          (drop (nat (int (length xs) + i)) xs)"
    by (simp add: max_def nat_diff_distrib')
  also have "\<dots> = drop (nat (int (length xs) + i)) (take (length xs - 1) xs)"
    by (simp add: drop_take)
  finally show ?thesis by (simp add: butlast_conv_take)
qed

lemma prior_subset: "set (iloc_slice (-60) (-1) xs) \<subseteq> set (iloc_slice (-61) (-1) xs)"
  by (simp add: iloc_slice_before_last set_drop_subset_set_drop)

text \<open>
  C7, as stated. The claim measures the replacement value against the maximum close of
  the 60 sessions before the evaluation date. On \<open>stale_high_close\<close> that maximum is
  200, at session -61; the value 150 lies strictly below it, and also below the maximum
  of the trailing 60 sessions as they stood before the replacement (180, the latest
  close). Condition 1 is still true with 150 as the latest close, because the rolling
  window of 60 ends at the evaluation date and holds only the 59 sessions before it.
\<close>

theorem condition1_below_prior_60_max_still_true:
  "lt_nan 150 (series_max (iloc_slice (-61) (-1) stale_high_close))
   \<and> lt_nan 150 (series_max (tail 60 stale_high_close))
   \<and> condition1 default_params (butlast stale_high_close @ [150])"
proof (intro conjI)
  have "200 \<in> set (iloc_slice (-61) (-1) stale_high_close)"
    by (simp add: iloc_slice_before_last stale_high_close_def butlast_append)
  then show "lt_nan 150 (series_max (iloc_slice (-61) (-1) stale_high_close))"
    by (rule series_max_lt) simp
  have "180 \<in> set (tail 60 stale_high_close)"
    by (simp add: tail_def stale_high_close_def)
  then show "lt_nan 150 (series_max (tail 60 stale_high_close))"
    by (rule series_max_lt) simp
  have "condition1 default_params (butlast stale_high_close @ [150])
      = ge_nan 150 (series_max (drop (length (butlast stale_high_close @ [150]) - 60)
          (butlast stale_high_close @ [150])))"
    by (subst condition1_eq) (simp_all add: default_params_def stale_high_close_def)
  also have "drop (length (butlast stale_high_close @ [150]) - 60)
      (butlast stale_high_close @ [150]) = replicate 59 100 @ [150]"
    by (simp add: stale_high_close_def butlast_append)
  finally show "condition1 default_params (butlast stale_high_close @ [150])"
    by (simp only: ge_series_max_snoc) simp
qed

text \<open>
  C7, amended. For a series of at least 60 closes, replacing the latest close with a
  value \<open>v\<close> strictly above the maximum of the 60 sessions before the evaluation date
  makes condition 1 true, and replacing it with a value \<open>w\<close> strictly below the maximum
  of the 59 sessions before the evaluation date (the rest of the rolling window) makes it
  false.
\<close>

theorem condition1_monotonic:
  assumes "60 \<le> length xs"
  shows "(gt_nan v (series_max (iloc_slice (-61) (-1) xs))
            \<longrightarrow> condition1 default_params (butlast xs @ [v]))
       \<and> (lt_nan w (series_max (iloc_slice (-60) (-1) xs))
            \<longrightarrow> \<not> condition1 default_params (butlast xs @ [w]))"
proof -
  have c: "condition1 default_params (butlast xs @ [u])
      = (\<forall>x\<in>set (iloc_slice (-60) (-1) xs). x \<le> u)" for u
  proof -
    have "condition1 default_params (butlast xs @ [u])
        = ge_nan u (series_max (drop (length xs - 60) (butlast xs @ [u])))"
      using assms by (subst condition1_eq) (auto simp: default_params_def)
    also have "drop (length xs - 60) (butlast xs @ [u]) = iloc_slice (-60) (-1) xs @ [u]"
      using assms by (simp add: iloc_slice_before_last nat_diff_distrib')
    finally show ?thesis by (simp only: ge_series_max_snoc)
  qed
  have up: "condition1 default_params (butlast xs @ [v])"
    if "gt_nan v (series_max (iloc_slice (-61) (-1) xs))"
    using prior_subset[of xs] gt_series_max[OF that] by (auto simp: c intro: less_imp_le)
  have down: "\<not> condition1 default_params (butlast xs @ [w])"
    if "lt_nan w (series_max (iloc_slice (-60) (-1) xs))"
    using lt_series_max[OF that] by (auto simp: c not_le)
  show ?thesis using up down by blast
qed

theorem condition1_monotonic_witness:
  "60 \<le> length example_close
   \<and> condition1 default_params (butlast example_close @ [106])
   \<and> \<not> condition1 default_params (butlast example_close @ [103])"
proof -
  have a: "gt_nan 106 (series_max (iloc_slice (-61) (-1) example_close))"
    by (rule gt_series_maxI)
      (simp_all add: iloc_slice_before_last example_close_def butlast_append)
  have "104 \<in> set (iloc_slice (-60) (-1) example_close)"
    by (simp add: iloc_slice_before_last example_close_def butlast_append)
  then have b: "lt_nan 103 (series_max (iloc_slice (-60) (-1) example_close))"
    by (rule series_max_lt) simp
  have l: "60 \<le> length example_close" by (simp add: length_example_close)
  show ?thesis using condition1_monotonic[OF l, of 106 103] a b l by simp
qed

section \<open>Condition 5 reads the close 119 sessions back\<close>

lemma condition5_default:
  "120 \<le> length xs
   \<Longrightarrow> condition5 default_params xs = (last xs > xs ! (length xs - 120))"
proof -
  assume l: "120 \<le> length xs"
  then have ne: "xs \<noteq> []" by auto
  have "iloc xs (- 120) = Some (xs ! (length xs - 120))"
    using l by (simp add: iloc_def Let_def nat_diff_distrib')
  then show ?thesis
    using l by (simp add: condition5_def trend_up_def default_params_def iloc_last[OF ne])
qed

text \<open>
  C8. Condition 5 should compare the latest close with the close observed 120 sessions
  earlier. On \<open>off_by_one_close\<close> the latest close (110) exceeds the close 120 sessions
  earlier (50), so the reference reading holds; the code reads \<open>iloc[-120]\<close>, the close
  119 sessions earlier (200), and gives false.
\<close>

theorem condition5_reads_119_sessions_back:
  "long_term_uptrend_spec off_by_one_close
   \<and> condition5 default_params off_by_one_close = False"
proof
  show "long_term_uptrend_spec off_by_one_close"
    by (simp add: long_term_uptrend_spec_def off_by_one_close_def iloc_def nth_append)
  have "condition5 default_params off_by_one_close
      = (last off_by_one_close > off_by_one_close ! (length off_by_one_close - 120))"
    by (rule condition5_default) (simp add: off_by_one_close_def)
  then show "condition5 default_params off_by_one_close = False"
    by (simp add: off_by_one_close_def nth_append)
qed


section \<open>The reported RSI and volume ratio\<close>


lemma iloc_rolling_last:
  "xs \<noteq> [] \<Longrightarrow> iloc (rolling w agg xs) (-1) = Some (last (rolling w agg xs))"
  by (rule iloc_last) (simp add: rolling_def)

lemma iloc_rolling_Nil: "iloc (rolling w agg []) (-1) = None"
  by (simp add: rolling_def iloc_def)

lemma metrics_Nil: "calculate_technical_metrics [] d sid = default_metrics"
  by (simp add: calculate_technical_metrics_def technical_metrics_body_def rolling_mean_def
      iloc_rolling_Nil except_return_def)

lemma metrics_nonempty:
  "sc \<noteq> [] \<Longrightarrow> calculate_technical_metrics sc d sid =
     \<lparr> ma5 = last (rolling_mean 5 sc), ma10 = last (rolling_mean 10 sc),
       ma20 = last (rolling_mean 20 sc),
       rsi = (if rsi_series sc \<noteq> [] then last (rsi_series sc) else Fin 50),
       volume_ratio = volume_ratio_of d sid \<rparr>"
  by (simp add: calculate_technical_metrics_def technical_metrics_body_def rolling_mean_def
      iloc_rolling_last except_return_def)






lemma loss_nonneg: "0 \<le> loss_of x" by (simp add: loss_of_def split: option.splits)


lemma dropna_map_Some: "dropna (replicate n (Some x)) = replicate n x"
  by (induction n) simp_all

lemma volume_ratio_cases:
  "volume_ratio (calculate_technical_metrics sc d sid) = (if sc = [] then 1 else volume_ratio_of d sid)"
  by (cases "sc = []") (simp_all add: metrics_Nil default_metrics_def metrics_nonempty)

text \<open>
  C10. When the instrument has at least 20 non-missing volumes and the mean of the last
  20 is zero, the reported volume ratio is 1.0, for every close series.
\<close>

theorem volume_ratio_zero_average:
  assumes "volume d = Some vol" and "map_of vol sid = Some col"
    and "20 \<le> length (dropna col)" and "mean (tail 20 (dropna col)) = Some 0"
  shows "volume_ratio (calculate_technical_metrics stock_close d sid) = 1"
proof -
  have "tail 20 (dropna col) \<noteq> []" using assms(3) by (auto simp: tail_def)
  then have q: "sum_list (tail 20 (dropna col)) / real (length (tail 20 (dropna col))) = 0"
    using assms(4) by (simp add: mean_def)
  have "volume_ratio_of d sid = 1"
    unfolding volume_ratio_of_def assms(1) assms(2) Let_def option.case
    by (simp only: q less_irrefl if_False if_cancel)
  then show ?thesis by (simp add: volume_ratio_cases)
qed

theorem volume_ratio_zero_average_witness:
  "volume zero_volume = Some [(''2330'', replicate 20 (Some 0))]
   \<and> 20 \<le> length (dropna (replicate 20 (Some (0::real))))
   \<and> mean (tail 20 (dropna (replicate 20 (Some 0)))) = Some 0
   \<and> volume_ratio (calculate_technical_metrics swing_close zero_volume ''2330'') = 1"
proof -
  have v: "volume zero_volume = Some [(''2330'', replicate 20 (Some 0))]"
    by (simp add: zero_volume_def)
  have m: "map_of [(''2330'', replicate 20 (Some (0::real)))] ''2330'' = Some (replicate 20 (Some 0))"
    by simp
  have l: "20 \<le> length (dropna (replicate 20 (Some (0::real))))"
    by (simp add: dropna_map_Some)
  have z: "mean (tail 20 (dropna (replicate 20 (Some 0)))) = Some 0"
    by (simp add: dropna_map_Some tail_def mean_def sum_list_replicate)
  show ?thesis using volume_ratio_zero_average[OF v m l z, of swing_close] v l z by simp
qed



section \<open>Every emitted candidate passes all eight conditions\<close>

lemma evaluate_stock_Some:
  assumes "evaluate_stock p d sid col = Some r"
  shows "stock_id r = sid"
    and "condition_details r = all_conditions p d sid (dropna col)"
    and "list_all (\<lambda>c. c) (condition_details r)"
    and "conditions_met r = length (filter (\<lambda>c. c) (condition_details r))"
  using assms
  by (auto simp: evaluate_stock_def Let_def split: if_splits option.splits)

lemma in_results:
  "r \<in> set (results p cf d) \<longleftrightarrow> (\<exists>(sid, col)\<in>set cf. evaluate_stock p d sid col = Some r)"
proof -
  have "r \<in> set (List.map_filter f xs) \<longleftrightarrow> (\<exists>x\<in>set xs. f x = Some r)" for f :: "string \<times> column \<Rightarrow> candidate option" and xs
    by (force simp: map_filter_def image_iff)
  then show ?thesis by (fastforce simp: results_def)
qed

lemma set_calculate:
  "set (calculate_second_high_conditions p cf d) = set (results p cf d)"
  by (auto simp: calculate_second_high_conditions_def sort_values_def)

lemma length_all_conditions: "length (all_conditions p d sid sc) = 8"
  by (simp add: all_conditions_def)

lemma all_true_count: "list_all (\<lambda>c. c) cs \<Longrightarrow> length (filter (\<lambda>c. c) cs) = length cs"
  by (induction cs) auto

lemma result_conditions_met: "r \<in> set (results p cf d) \<Longrightarrow> conditions_met r = 8"
proof -
  assume "r \<in> set (results p cf d)"
  then obtain sid col where e: "evaluate_stock p d sid col = Some r"
    by (auto simp: in_results)
  note f = evaluate_stock_Some[OF e]
  show ?thesis using f(3,4) by (simp add: all_true_count f(2) length_all_conditions)
qed

text \<open>
  C6. Every record returned by the evaluator carries eight condition booleans, all of
  them true, and \<open>conditions_met = 8\<close>; the booleans are the eight conditions of the
  record's own instrument.
\<close>

theorem emitted_candidate_passes_all_eight:
  assumes "r \<in> set (calculate_second_high_conditions p close_filtered d)"
  shows "length (condition_details r) = 8 \<and> (\<forall>c\<in>set (condition_details r). c)
     \<and> conditions_met r = 8
     \<and> (\<exists>col. (stock_id r, col) \<in> set close_filtered
           \<and> condition_details r = all_conditions p d (stock_id r) (dropna col))"
proof -
  from assms obtain sid col where m: "(sid, col) \<in> set close_filtered"
    and e: "evaluate_stock p d sid col = Some r"
    by (auto simp: set_calculate in_results)
  note f = evaluate_stock_Some[OF e]
  have "length (condition_details r) = 8" by (simp add: f(2) length_all_conditions)
  moreover have "\<forall>c\<in>set (condition_details r). c" using f(3) by (simp add: list_all_iff)
  moreover have "conditions_met r = 8"
    using f(3,4) by (simp add: all_true_count f(2) length_all_conditions)
  moreover have "\<exists>col. (stock_id r, col) \<in> set close_filtered
           \<and> condition_details r = all_conditions p d (stock_id r) (dropna col)"
    using m f(1,2) by auto
  ultimately show ?thesis by blast
qed

lemma three_eval:
  "map (\<lambda>r. (stock_id r, conditions_met r, condition_details r, breakthrough_ratio r))
     (calculate_second_high_conditions short_params three_stocks no_data)
   = [(''2330'', 8, replicate 8 True, Fin (200 / 11)),
      (''1101'', 8, replicate 8 True, Fin (100 / 11)),
      (''2454'', 8, replicate 8 True, Fin (100 / 11))]"
  by code_simp

lemma three_hd:
  "hd (calculate_second_high_conditions short_params three_stocks no_data)
     \<in> set (calculate_second_high_conditions short_params three_stocks no_data)"
  using three_eval by (cases "calculate_second_high_conditions short_params three_stocks no_data") auto

theorem emitted_candidate_passes_all_eight_witness:
  "stock_id (hd (calculate_second_high_conditions short_params three_stocks no_data)) = ''2330''
   \<and> conditions_met (hd (calculate_second_high_conditions short_params three_stocks no_data)) = 8
   \<and> condition_details (hd (calculate_second_high_conditions short_params three_stocks no_data))
       = [True, True, True, True, True, True, True, True]"
proof -
  have "stock_id (hd (calculate_second_high_conditions short_params three_stocks no_data)) = ''2330''"
    by code_simp
  moreover have "condition_details (hd (calculate_second_high_conditions short_params three_stocks no_data))
       = [True, True, True, True, True, True, True, True]"
    by code_simp
  ultimately show ?thesis
    using emitted_candidate_passes_all_eight[OF three_hd] by simp
qed


section \<open>The ranking\<close>

lemma desc_rank_le: "desc_rank a \<le> desc_rank b \<longleftrightarrow> ratio_ge a b"
  by (cases a; cases b) (simp_all add: desc_rank_def)

lemma sort_values_key_le: "sort_values_key a \<le> sort_values_key b \<longleftrightarrow> key_ge a b"
  by (auto simp: sort_values_key_def key_ge_def desc_rank_le)

lemma sorted_sort_values: "sorted_wrt key_ge (sort_values rs)"
proof -
  have "sorted (map sort_values_key (sort_values rs))"
    by (simp add: sort_values_def)
  then show ?thesis
    by (simp add: sorted_map sort_values_key_le[abs_def])
qed

lemma sort_values_stable:
  "filter (\<lambda>r. sort_values_key r = k) (sort_values rs) = filter (\<lambda>r. sort_values_key r = k) rs"
  by (simp add: sort_values_def sort_key_stable)

lemma same_key:
  "sort_values_key a = sort_values_key b
     \<longleftrightarrow> conditions_met a = conditions_met b
         \<and> desc_rank (breakthrough_ratio a) = desc_rank (breakthrough_ratio b)"
  by (auto simp: sort_values_key_def)

text \<open>
  C4. The returned list is sorted by the pair (conditions met, breakout ratio) in
  descending order; it is a rearrangement of the loop's \<open>results\<close> in which the records
  of equal key keep their iteration order; every record has \<open>conditions_met = 8\<close>, so
  the list is in descending order of the breakout ratio.
\<close>

theorem ranking_sorted_and_stable:
  "sorted_wrt key_ge (calculate_second_high_conditions p cf d)
   \<and> mset (calculate_second_high_conditions p cf d) = mset (results p cf d)
   \<and> (\<forall>k. filter (\<lambda>r. sort_values_key r = k) (calculate_second_high_conditions p cf d)
           = filter (\<lambda>r. sort_values_key r = k) (results p cf d))
   \<and> (\<forall>r\<in>set (calculate_second_high_conditions p cf d). conditions_met r = 8)
   \<and> sorted_wrt (\<lambda>a b. ratio_ge (breakthrough_ratio a) (breakthrough_ratio b))
        (calculate_second_high_conditions p cf d)"
proof -
  let ?out = "calculate_second_high_conditions p cf d"
  have out: "?out = sort_values (results p cf d)"
    by (simp add: calculate_second_high_conditions_def sort_values_def)
  have s: "sorted_wrt key_ge ?out" by (simp add: out sorted_sort_values)
  have m: "mset ?out = mset (results p cf d)" by (simp add: out sort_values_def)
  have st: "\<forall>k. filter (\<lambda>r. sort_values_key r = k) ?out
           = filter (\<lambda>r. sort_values_key r = k) (results p cf d)"
    by (simp add: out sort_values_stable)
  have e: "\<forall>r\<in>set ?out. conditions_met r = 8"
    by (simp add: set_calculate result_conditions_met)
  have "sorted_wrt (\<lambda>a b. ratio_ge (breakthrough_ratio a) (breakthrough_ratio b)) ?out"
    using s e by (rule_tac sorted_wrt_mono_rel[of ?out key_ge]) (auto simp: key_ge_def)
  with s m st e show ?thesis by blast
qed

theorem ranking_sorted_and_stable_witness:
  "map stock_id (results short_params three_stocks no_data) = [''1101'', ''2330'', ''2454'']
   \<and> map stock_id (calculate_second_high_conditions short_params three_stocks no_data)
       = [''2330'', ''1101'', ''2454'']
   \<and> map breakthrough_ratio (calculate_second_high_conditions short_params three_stocks no_data)
       = [Fin (200 / 11), Fin (100 / 11), Fin (100 / 11)]
   \<and> map conditions_met (calculate_second_high_conditions short_params three_stocks no_data)
       = [8, 8, 8]"
proof -
  have "map stock_id (results short_params three_stocks no_data) = [''1101'', ''2330'', ''2454'']"
    by code_simp
  moreover have "map stock_id (calculate_second_high_conditions short_params three_stocks no_data)
       = [''2330'', ''1101'', ''2454'']"
    by code_simp
  moreover have "map breakthrough_ratio (calculate_second_high_conditions short_params three_stocks no_data)
       = [Fin (200 / 11), Fin (100 / 11), Fin (100 / 11)]"
    by code_simp
  moreover have "map conditions_met (calculate_second_high_conditions short_params three_stocks no_data)
       = [8, 8, 8]"
    by code_simp
  ultimately show ?thesis
    using ranking_sorted_and_stable[of short_params three_stocks no_data] by simp
qed


section \<open>An empty filtered panel\<close>

text \<open>
  C3, amended. When \<open>apply_basic_filters\<close> returns an empty panel, \<open>run_analysis\<close>
  raises, so the run ends in its failure handler and the evaluator is not called; the
  evaluator itself returns the empty result on that panel.
\<close>

theorem empty_filtered_panel_fails_run:
  assumes "apply_basic_filters d = Inr close_filtered" and "df_empty close_filtered"
  shows "run_analysis p True (Some d) = Failed NoStocksAfterBasicFilter
     \<and> calculate_second_high_conditions p close_filtered d = []"
proof -
  have cf: "close_filtered = filter (basic_filter d) (close d)"
    using assms(1) by (auto simp: apply_basic_filters_def split: if_splits)
  have "col \<noteq> []" if "(sid, col) \<in> set close_filtered" for sid col
    using that by (auto simp: cf basic_filter_def iloc_def)
  then have "close_filtered = []"
    using assms(2) by (cases close_filtered) (auto simp: df_empty_def n_rows_def)
  then show ?thesis
    using assms by (simp add: run_analysis_def calculate_second_high_conditions_def results_def
        map_filter_simps)
qed

lemma penny_filtered: "apply_basic_filters penny_data = Inr []"
  by (simp add: apply_basic_filters_def penny_data_def n_rows_def basic_filter_def iloc_def)

theorem empty_filtered_panel_fails_run_witness:
  "apply_basic_filters penny_data = Inr [] \<and> df_empty []
   \<and> run_analysis default_params True (Some penny_data) = Failed NoStocksAfterBasicFilter
   \<and> calculate_second_high_conditions default_params [] penny_data = []"
  using empty_filtered_panel_fails_run[OF penny_filtered, of default_params] penny_filtered
  by (simp add: df_empty_def)

text \<open>
  C3, as stated. For \<open>penny_data\<close> the filter drops the only instrument, and the run
  does not end with the report of an empty candidate list.
\<close>

theorem empty_universe_is_reported_as_failure:
  "apply_basic_filters penny_data = Inr []
   \<and> run_analysis default_params True (Some penny_data) \<noteq> Reported []"
  by (simp add: penny_filtered run_analysis_def df_empty_def)


section \<open>The RSI reported for a passing instrument\<close>



lemma mean_loss14_nonneg: "0 \<le> mean_loss14 sc"
  by (auto simp: mean_loss14_def tail_def intro!: sum_list_nonneg loss_nonneg dest!: in_set_dropD)








section \<open>The revenue condition fails open\<close>













end
